theory Spec2Isabelle
  imports Complex_Main
begin

section \<open>JavaScript values and objects\<close>

text \<open>
  The catalogue rows and the galaxy records are plain JavaScript objects. An object is a
  map from property names to values; a name outside the domain reads as \<open>undefined\<close>.
  A cell of the parsed table is a number, a string, a boolean or \<open>null\<close> (the parser
  runs with \<open>dynamicTyping\<close>); a row that is too short lacks the trailing keys.

  Numbers are modelled as reals, with one extra value for NaN. The infinities and the
  rounding of doubles are outside the model. A string is the sequence of its UTF-16 code
  units.

  Two operations belong to the JavaScript engine and not to the program: the conversion
  of a string to a number, and \<open>String.prototype.toLowerCase\<close>. Each is a parameter of the
  functions that use it, named \<open>StringToNumber\<close> (with \<open>None\<close> for NaN) and
  \<open>toLowerCase\<close>; in the theorems they are the variables \<open>sn\<close> and \<open>lower\<close>, and the
  theorems hold whatever the two operations are.
\<close>

type_synonym jsstring = "nat list"

definition str :: "string \<Rightarrow> jsstring" where
  \<comment> \<open>the code units of a literal written in ASCII\<close>
  "str lit = map of_char lit"

datatype jsval = JUndefined | JNull | JBool bool | JNum real | JNaN | JStr jsstring

type_synonym obj = "string \<rightharpoonup> jsval"

definition get :: "obj \<Rightarrow> string \<Rightarrow> jsval" where
  \<comment> \<open>property read \<open>o.k\<close>\<close>
  "get ob k = (case ob k of None \<Rightarrow> JUndefined | Some v \<Rightarrow> v)"

fun not_null :: "jsval \<Rightarrow> bool" where
  \<comment> \<open>\<open>v != null\<close>: loose inequality, false for \<open>null\<close> and \<open>undefined\<close> only\<close>
  "not_null JUndefined = False"
| "not_null JNull = False"
| "not_null v = True"

fun ToNumber :: "(jsstring \<Rightarrow> real option) \<Rightarrow> jsval \<Rightarrow> real option" where
  \<comment> \<open>\<open>None\<close> is NaN; a string is converted by the engine\<close>
  "ToNumber StringToNumber JUndefined = None"
| "ToNumber StringToNumber JNull = Some 0"
| "ToNumber StringToNumber (JBool b) = Some (if b then 1 else 0)"
| "ToNumber StringToNumber (JNum r) = Some r"
| "ToNumber StringToNumber JNaN = None"
| "ToNumber StringToNumber (JStr s) = StringToNumber s"

fun truthy :: "jsval \<Rightarrow> bool" where
  "truthy JUndefined = False"
| "truthy JNull = False"
| "truthy (JBool b) = b"
| "truthy (JNum r) = (r \<noteq> 0)"
| "truthy JNaN = False"
| "truthy (JStr s) = (s \<noteq> [])"

fun str_lt :: "jsstring \<Rightarrow> jsstring \<Rightarrow> bool" where
  \<comment> \<open>strings compare by code units, a proper prefix first\<close>
  "str_lt [] [] = False"
| "str_lt [] (b # bs) = True"
| "str_lt (a # as) [] = False"
| "str_lt (a # as) (b # bs) = (a < b \<or> (a = b \<and> str_lt as bs))"

fun js_lt :: "(jsstring \<Rightarrow> real option) \<Rightarrow> jsval \<Rightarrow> jsval \<Rightarrow> bool" where
  \<comment> \<open>\<open>a < b\<close>: two strings compare as strings, anything else as numbers, and a
      comparison with NaN is false\<close>
  "js_lt StringToNumber (JStr a) (JStr b) = str_lt a b"
| "js_lt StringToNumber a b =
     (case (ToNumber StringToNumber a, ToNumber StringToNumber b) of
        (Some x, Some y) \<Rightarrow> x < y
      | _ \<Rightarrow> False)"

definition js_gt :: "(jsstring \<Rightarrow> real option) \<Rightarrow> jsval \<Rightarrow> jsval \<Rightarrow> bool" where
  \<comment> \<open>\<open>a > b\<close>\<close>
  "js_gt StringToNumber a b = js_lt StringToNumber b a"

definition js_or :: "jsval \<Rightarrow> jsval \<Rightarrow> jsval" where
  \<comment> \<open>\<open>a || b\<close>\<close>
  "js_or a b = (if truthy a then a else b)"

definition js_div :: "(jsstring \<Rightarrow> real option) \<Rightarrow> jsval \<Rightarrow> real \<Rightarrow> jsval" where
  \<comment> \<open>\<open>a / c\<close> for a non-zero constant \<open>c\<close>\<close>
  "js_div StringToNumber a c =
     (case ToNumber StringToNumber a of None \<Rightarrow> JNaN | Some r \<Rightarrow> JNum (r / c))"

definition Math_log10 :: "(jsstring \<Rightarrow> real option) \<Rightarrow> jsval \<Rightarrow> jsval" where
  \<comment> \<open>\<open>Math.log10\<close>; its value at 0 (minus infinity) is not a value of the model and
      is never asked for: the one call is guarded by \<open>mass > 0\<close>\<close>
  "Math_log10 StringToNumber v =
     (case ToNumber StringToNumber v of
        None \<Rightarrow> JNaN
      | Some r \<Rightarrow> if 0 < r then JNum (log 10 r) else JNaN)"

section \<open>dataUtils.js: loadData\<close>

text \<open>
  The input of the model is \<open>results.data\<close>, the rows the parser hands to the
  \<open>complete\<close> callback; the result is the array the promise resolves to.
\<close>

definition scan_step :: "(jsstring \<Rightarrow> real option) \<Rightarrow> jsval \<Rightarrow> obj \<Rightarrow> jsval" where
  \<comment> \<open>\<open>if (row.mass_stellar > maxMass) maxMass = row.mass_stellar\<close>\<close>
  "scan_step StringToNumber maxMass row =
     (if js_gt StringToNumber (get row ''mass_stellar'') maxMass
      then get row ''mass_stellar'' else maxMass)"

definition scan_maxMass :: "(jsstring \<Rightarrow> real option) \<Rightarrow> obj list \<Rightarrow> jsval" where
  "scan_maxMass StringToNumber rows = foldl (scan_step StringToNumber) (JNum 0) rows"

definition has_coords :: "obj \<Rightarrow> bool" where
  "has_coords row =
     (not_null (get row ''sg_xx'') \<and> not_null (get row ''sg_yy'') \<and> not_null (get row ''sg_zz''))"

definition mass_of_row :: "(jsstring \<Rightarrow> real option) \<Rightarrow> bool \<Rightarrow> obj \<Rightarrow> jsval" where
  "mass_of_row StringToNumber isLinear row =
     (let mass = js_or (get row ''mass_stellar'') (JNum 0)
      in if isLinear \<and> js_gt StringToNumber mass (JNum 0)
         then Math_log10 StringToNumber mass else mass)"

definition make_record ::
  "(jsstring \<Rightarrow> real option) \<Rightarrow> bool \<Rightarrow> nat \<Rightarrow> obj \<Rightarrow> obj" where
  \<comment> \<open>the object literal \<open>{ id: index, ...row, x, y, z, mass_log: mass, dist_mpc: ... }\<close>:
      a later entry replaces an earlier one of the same name\<close>
  "make_record StringToNumber isLinear index row =
     ([''id'' \<mapsto> JNum (real index)] ++ row)
       (''x'' \<mapsto> js_div StringToNumber (get row ''sg_xx'') 1000,
        ''y'' \<mapsto> js_div StringToNumber (get row ''sg_yy'') 1000,
        ''z'' \<mapsto> js_div StringToNumber (get row ''sg_zz'') 1000,
        ''mass_log'' \<mapsto> mass_of_row StringToNumber isLinear row,
        ''dist_mpc'' \<mapsto> js_div StringToNumber (js_or (get row ''distance'') (JNum 0)) 1000)"

definition loadData :: "(jsstring \<Rightarrow> real option) \<Rightarrow> obj list \<Rightarrow> obj list" where
  "loadData StringToNumber rows =
     (if length rows = 0 then []
      else
        let isLinear = js_gt StringToNumber (scan_maxMass StringToNumber rows) (JNum 20)
        in map (\<lambda>(index, row). make_record StringToNumber isLinear index row)
             (enumerate 0 (filter has_coords rows)))"

section \<open>main.jsx: the filter pass of App\<close>

text \<open>
  \<open>processedData\<close> is recomputed from the loaded records and the four state variables
  \<open>maxDist\<close>, \<open>minMass\<close>, \<open>showLocalGroup\<close>, \<open>searchQuery\<close>. The sliders hold
  numbers and the search box a string. A method call on a value that has no such method
  throws; the exception leaves the whole computation, so the result is an error or the
  new array.
\<close>

datatype error = TypeError

fun startsWith :: "jsstring \<Rightarrow> jsstring \<Rightarrow> bool" where
  "startsWith s [] = True"
| "startsWith [] (q # qs) = False"
| "startsWith (c # cs) (q # qs) = (c = q \<and> startsWith cs qs)"

fun str_includes :: "jsstring \<Rightarrow> jsstring \<Rightarrow> bool" where
  \<comment> \<open>\<open>s.includes(q)\<close>: \<open>q\<close> occurs in \<open>s\<close> at some position\<close>
  "str_includes [] q = (q = [])"
| "str_includes (c # cs) q = (startsWith (c # cs) q \<or> str_includes cs q)"

definition keep ::
  "(jsstring \<Rightarrow> real option) \<Rightarrow> real \<Rightarrow> real \<Rightarrow> bool \<Rightarrow> obj \<Rightarrow> bool" where
  \<comment> \<open>the callback of \<open>data.filter\<close>, its three early returns in order\<close>
  "keep StringToNumber maxDist minMass showLocalGroup d =
     (if js_gt StringToNumber (get d ''dist_mpc'') (JNum maxDist) then False
      else if js_lt StringToNumber (get d ''mass_log'') (JNum minMass) then False
      else if showLocalGroup \<and> js_gt StringToNumber (get d ''dist_mpc'') (JNum 3.0) then False
      else True)"

definition isMatch_of :: "(jsstring \<Rightarrow> jsstring) \<Rightarrow> jsstring \<Rightarrow> obj \<Rightarrow> error + bool" where
  \<comment> \<open>\<open>searchQuery ? d.name.toLowerCase().includes(lowerQuery) : true\<close> with
      \<open>lowerQuery = searchQuery.toLowerCase()\<close>; only a string has the method
      \<open>toLowerCase\<close>\<close>
  "isMatch_of toLowerCase searchQuery d =
     (if searchQuery \<noteq> [] then
        (case get d ''name'' of
           JStr nm \<Rightarrow> Inr (str_includes (toLowerCase nm) (toLowerCase searchQuery))
         | _ \<Rightarrow> Inl TypeError)
      else Inr True)"

fun annotate :: "(jsstring \<Rightarrow> jsstring) \<Rightarrow> jsstring \<Rightarrow> obj list \<Rightarrow> error + obj list" where
  \<comment> \<open>the \<open>map\<close> that adds \<open>isMatch\<close> to a copy of each record\<close>
  "annotate toLowerCase searchQuery [] = Inr []"
| "annotate toLowerCase searchQuery (d # ds) =
     (case isMatch_of toLowerCase searchQuery d of
        Inl e \<Rightarrow> Inl e
      | Inr b \<Rightarrow>
          (case annotate toLowerCase searchQuery ds of
             Inl e \<Rightarrow> Inl e
           | Inr rest \<Rightarrow> Inr (d(''isMatch'' \<mapsto> JBool b) # rest)))"

definition processedData ::
  "(jsstring \<Rightarrow> real option) \<Rightarrow> (jsstring \<Rightarrow> jsstring) \<Rightarrow>
   obj list \<Rightarrow> real \<Rightarrow> real \<Rightarrow> bool \<Rightarrow> jsstring \<Rightarrow> error + obj list" where
  "processedData StringToNumber toLowerCase data maxDist minMass showLocalGroup searchQuery =
     annotate toLowerCase searchQuery
       (filter (keep StringToNumber maxDist minMass showLocalGroup) data)"

section \<open>GalaxyParticles.jsx: colours, sizes and the matched galaxy\<close>

text \<open>
  A colour is its three channels. \<open>THREE.Color\<close> belongs to the rendering library: the
  constructor that reads a hexadecimal colour string is a parameter \<open>Color\<close> of the
  model, and \<open>lerpColors\<close> is the library's channel-wise
  \<open>c1 + (c2 - c1) * alpha\<close>.
\<close>

type_synonym rgb = "real \<times> real \<times> real"

definition lerpColors :: "rgb \<Rightarrow> rgb \<Rightarrow> real \<Rightarrow> rgb" where
  "lerpColors c1 c2 alpha =
     (case (c1, c2) of
        ((r1, g1, b1), (r2, g2, b2)) \<Rightarrow>
          (r1 + (r2 - r1) * alpha, g1 + (g2 - g1) * alpha, b1 + (b2 - b1) * alpha))"

definition colorStops :: "(string \<Rightarrow> rgb) \<Rightarrow> (real \<times> rgb) list" where
  "colorStops Color =
     [(0.0, Color ''#000004''),
      (0.2, Color ''#3B0F70''),
      (0.4, Color ''#8C2981''),
      (0.6, Color ''#DE4968''),
      (0.8, Color ''#FE9F6D''),
      (1.0, Color ''#FCFDBF'')]"

fun find_segment :: "(real \<times> rgb) list \<Rightarrow> real \<Rightarrow> rgb option" where
  \<comment> \<open>the \<open>for\<close> loop over consecutive stops; \<open>None\<close> when it runs to its end\<close>
  "find_segment ((t0, c0) # (t1, c1) # stops) t =
     (if t \<ge> t0 \<and> t \<le> t1 then Some (lerpColors c0 c1 ((t - t0) / (t1 - t0)))
      else find_segment ((t1, c1) # stops) t)"
| "find_segment stops t = None"

definition getMagmaColor :: "(string \<Rightarrow> rgb) \<Rightarrow> real \<Rightarrow> rgb" where
  "getMagmaColor Color t =
     (let t' = max 0 (min 1 t)
      in case find_segment (colorStops Color) t' of
           Some c \<Rightarrow> c
         | None \<Rightarrow> snd (last (colorStops Color)))"

definition color_of :: "(jsstring \<Rightarrow> real option) \<Rightarrow> (string \<Rightarrow> rgb) \<Rightarrow> jsval \<Rightarrow> rgb" where
  \<comment> \<open>\<open>getMagmaColor((d.mass_log - 6.0) / 5.5)\<close>; with NaN every test of the loop is
      false and the last stop is returned\<close>
  "color_of StringToNumber Color mass_log =
     (case ToNumber StringToNumber mass_log of
        Some m \<Rightarrow> getMagmaColor Color ((m - 6.0) / 5.5)
      | None \<Rightarrow> snd (last (colorStops Color)))"

definition baseSize :: "(jsstring \<Rightarrow> real option) \<Rightarrow> jsval \<Rightarrow> real" where
  "baseSize StringToNumber mass_log =
     (if js_lt StringToNumber mass_log (JNum 8.0) then 1.5
      else if js_lt StringToNumber mass_log (JNum 10.0) then 2.5
      else 4.0)"

record memo =
  positions :: "jsval list"
  colors :: "real list"
  sizes :: "real list"
  particles :: "obj list"
  matchedGalaxy :: "obj option"
  labeledGalaxies :: "obj list"

definition memo_init :: memo where
  "memo_init =
     \<lparr>positions = [], colors = [], sizes = [], particles = [],
      matchedGalaxy = None, labeledGalaxies = []\<rparr>"

definition memo_step ::
  "(jsstring \<Rightarrow> real option) \<Rightarrow> (string \<Rightarrow> rgb) \<Rightarrow> real \<Rightarrow> bool \<Rightarrow>
   memo \<Rightarrow> nat \<times> obj \<Rightarrow> memo" where
  \<comment> \<open>the body of \<open>data.forEach((d, i) => ...)\<close>\<close>
  "memo_step StringToNumber Color massThreshold searchActive acc entry =
     (case entry of
        (i, d) \<Rightarrow>
          (case color_of StringToNumber Color (get d ''mass_log'') of
             (r, g, b) \<Rightarrow>
               \<lparr>positions = positions acc @ [get d ''x'', get d ''y'', get d ''z''],
                colors = colors acc @ [r, g, b],
                sizes = sizes acc @ [baseSize StringToNumber (get d ''mass_log'')],
                particles = particles acc @ [d(''originalIndex'' \<mapsto> JNum (real i))],
                matchedGalaxy =
                  (if searchActive \<and> truthy (get d ''isMatch'') then Some d
                   else matchedGalaxy acc),
                labeledGalaxies =
                  (if js_gt StringToNumber (get d ''mass_log'') (JNum massThreshold)
                   then labeledGalaxies acc @ [d] else labeledGalaxies acc)\<rparr>))"

definition GalaxyParticles_memo ::
  "(jsstring \<Rightarrow> real option) \<Rightarrow> (string \<Rightarrow> rgb) \<Rightarrow> obj list \<Rightarrow> real \<Rightarrow> bool \<Rightarrow> memo" where
  "GalaxyParticles_memo StringToNumber Color data massThreshold searchActive =
     foldl (memo_step StringToNumber Color massThreshold searchActive) memo_init
       (enumerate 0 data)"

definition marker_position :: "memo \<Rightarrow> (jsval \<times> jsval \<times> jsval) option" where
  \<comment> \<open>\<open>matchedGalaxy && <BlinkingMarker position={[matchedGalaxy.x, matchedGalaxy.y,
      matchedGalaxy.z]} />\<close>: \<open>None\<close> when no marker is drawn\<close>
  "marker_position m =
     (case matchedGalaxy m of
        None \<Rightarrow> None
      | Some g \<Rightarrow> Some (get g ''x'', get g ''y'', get g ''z''))"

section \<open>UIOverlay.jsx: handleLocate\<close>

definition handleLocate :: "real \<Rightarrow> real \<Rightarrow> real \<Rightarrow> real \<times> real \<times> real" where
  \<comment> \<open>the point handed to \<open>setUserMarker\<close>; \<open>dist'\<close> is the state variable \<open>dist\<close>\<close>
  "handleLocate ra dec dist' =
     (let d2r = pi / 180;
          x = dist' * cos (dec * d2r) * cos (ra * d2r);
          y = dist' * cos (dec * d2r) * sin (ra * d2r);
          z = dist' * sin (dec * d2r)
      in (x, y, z))"

section \<open>Terms of the specification and sample inputs\<close>

definition mass_or_0 :: "obj \<Rightarrow> real" where
  \<comment> \<open>the specification's reading of a row's mass: \<open>mass_stellar\<close>, a missing one
      treated as 0\<close>
  "mass_or_0 row = (case get row ''mass_stellar'' of JNum r \<Rightarrow> r | _ \<Rightarrow> 0)"

definition mass_cell_ok :: "obj \<Rightarrow> bool" where
  \<comment> \<open>the \<open>mass_stellar\<close> cell is a number or is missing (\<open>null\<close> or absent), as the
      catalogue's float column gives it\<close>
  "mass_cell_ok row =
     (case get row ''mass_stellar'' of
        JNum r \<Rightarrow> True | JNull \<Rightarrow> True | JUndefined \<Rightarrow> True | _ \<Rightarrow> False)"

definition distance_cell_ok :: "obj \<Rightarrow> bool" where
  \<comment> \<open>the \<open>distance\<close> cell is a number or is missing\<close>
  "distance_cell_ok row =
     (case get row ''distance'' of
        JNum r \<Rightarrow> True | JNull \<Rightarrow> True | JUndefined \<Rightarrow> True | _ \<Rightarrow> False)"

definition numeric_record :: "obj \<Rightarrow> bool" where
  \<comment> \<open>a canonical record: \<open>dist_mpc\<close> and \<open>mass_log\<close> are numbers\<close>
  "numeric_record d =
     (case (get d ''dist_mpc'', get d ''mass_log'') of (JNum r, JNum m) \<Rightarrow> True | _ \<Rightarrow> False)"

definition passes :: "real \<Rightarrow> real \<Rightarrow> bool \<Rightarrow> obj \<Rightarrow> bool" where
  \<comment> \<open>the specification's test of the filter: \<open>dist_mpc <= maxDist\<close>,
      \<open>mass_log >= minMass\<close> and, if \<open>localGroupOnly\<close>, \<open>dist_mpc <= 3.0\<close>\<close>
  "passes maxDist minMass localGroupOnly d =
     (case (get d ''dist_mpc'', get d ''mass_log'') of
        (JNum dist_mpc, JNum mass_log) \<Rightarrow>
          dist_mpc \<le> maxDist \<and> mass_log \<ge> minMass \<and> (localGroupOnly \<longrightarrow> dist_mpc \<le> 3.0)
      | _ \<Rightarrow> False)"

definition radians :: "real \<Rightarrow> real" where
  \<comment> \<open>degrees to radians\<close>
  "radians deg = deg * (pi / 180)"

definition first_match_position :: "obj list \<Rightarrow> (jsval \<times> jsval \<times> jsval) option" where
  \<comment> \<open>the position of the first record, in the order of the array, whose \<open>isMatch\<close> is
      true\<close>
  "first_match_position data =
     (case find (\<lambda>d. truthy (get d ''isMatch'')) data of
        None \<Rightarrow> None
      | Some g \<Rightarrow> Some (get g ''x'', get g ''y'', get g ''z''))"

text \<open>
  The worked examples need the engine's and the library's operations at some value.
  No example below reads a string as a number, so the conversion chosen for them is
  never applied; their strings are ASCII, where lower-casing turns the code units 65 to
  90 (A to Z) into 97 to 122 and keeps the others; and the colour constructor is the
  library's with its colour management on: the channels of \<open>#RRGGBB\<close>, scaled to the
  unit interval, each converted from sRGB to linear.
\<close>

definition no_numeral :: "jsstring \<Rightarrow> real option" where
  "no_numeral s = None"

definition ascii_lower :: "jsstring \<Rightarrow> jsstring" where
  "ascii_lower s = map (\<lambda>c. if 65 \<le> c \<and> c \<le> 90 then c + 32 else c) s"

definition hex_digit :: "char \<Rightarrow> nat" where
  "hex_digit c =
     (case map_of (zip ''0123456789ABCDEFabcdef'' ([0 ..< 16] @ [10 ..< 16])) c of
        Some n \<Rightarrow> n
      | None \<Rightarrow> 0)"

definition hex_color :: "string \<Rightarrow> rgb" where
  \<comment> \<open>the channels of \<open>#RRGGBB\<close>, each scaled to the unit interval\<close>
  "hex_color lit =
     (case lit of
        [h, r1, r0, g1, g0, b1, b0] \<Rightarrow>
          (real (16 * hex_digit r1 + hex_digit r0) / 255,
           real (16 * hex_digit g1 + hex_digit g0) / 255,
           real (16 * hex_digit b1 + hex_digit b0) / 255)
      | _ \<Rightarrow> (0, 0, 0))"

definition SRGBToLinear :: "real \<Rightarrow> real" where
  "SRGBToLinear c =
     (if c < 0.04045 then c * 0.0773993808
      else (c * 0.9478672986 + 0.0521327014) powr 2.4)"

definition THREE_Color :: "string \<Rightarrow> rgb" where
  "THREE_Color lit =
     (case hex_color lit of (r, g, b) \<Rightarrow> (SRGBToLinear r, SRGBToLinear g, SRGBToLinear b))"

definition rows_missing_yy :: "obj list" where
  "rows_missing_yy =
     [[''name'' \<mapsto> JStr (str ''A''), ''sg_xx'' \<mapsto> JNum 1000, ''sg_yy'' \<mapsto> JNum 2000,
       ''sg_zz'' \<mapsto> JNum 3000],
      [''name'' \<mapsto> JStr (str ''B''), ''sg_xx'' \<mapsto> JNum 10, ''sg_yy'' \<mapsto> JNull,
       ''sg_zz'' \<mapsto> JNum 30],
      [''name'' \<mapsto> JStr (str ''C''), ''sg_xx'' \<mapsto> JNum 0, ''sg_yy'' \<mapsto> JNum 5,
       ''sg_zz'' \<mapsto> JNum 7]]"

definition rows_linear :: "obj list" where
  "rows_linear =
     [[''sg_xx'' \<mapsto> JNum 1, ''sg_yy'' \<mapsto> JNum 2, ''sg_zz'' \<mapsto> JNum 3,
       ''mass_stellar'' \<mapsto> JNum 1000],
      [''sg_xx'' \<mapsto> JNum 1, ''sg_yy'' \<mapsto> JNum 2, ''sg_zz'' \<mapsto> JNum 3,
       ''mass_stellar'' \<mapsto> JNum 0],
      [''sg_xx'' \<mapsto> JNum 1, ''sg_yy'' \<mapsto> JNum 2, ''sg_zz'' \<mapsto> JNum 3,
       ''mass_stellar'' \<mapsto> JNull]]"

definition rows_with_id :: "obj list" where
  \<comment> \<open>a catalogue with a column \<open>id\<close> of its own\<close>
  "rows_with_id =
     [[''id'' \<mapsto> JNum 7, ''sg_xx'' \<mapsto> JNum 1000, ''sg_yy'' \<mapsto> JNum 2000,
       ''sg_zz'' \<mapsto> JNum 3000],
      [''id'' \<mapsto> JNum 7, ''sg_xx'' \<mapsto> JNum 10, ''sg_yy'' \<mapsto> JNum 20,
       ''sg_zz'' \<mapsto> JNum 30]]"

definition far_heavy :: obj where
  "far_heavy =
     [''name'' \<mapsto> JStr (str ''Far''), ''dist_mpc'' \<mapsto> JNum 5, ''mass_log'' \<mapsto> JNum 12]"

definition near_light :: obj where
  "near_light =
     [''name'' \<mapsto> JStr (str ''Light''), ''dist_mpc'' \<mapsto> JNum 2, ''mass_log'' \<mapsto> JNum 5.9]"

definition near_heavy :: obj where
  "near_heavy =
     [''name'' \<mapsto> JStr (str ''Near''), ''dist_mpc'' \<mapsto> JNum 2, ''mass_log'' \<mapsto> JNum 7]"

definition andromeda :: obj where
  "andromeda =
     [''name'' \<mapsto> JStr (str ''Andromeda Galaxy''), ''dist_mpc'' \<mapsto> JNum 0.77,
      ''mass_log'' \<mapsto> JNum 11]"

definition sculptor :: obj where
  "sculptor =
     [''name'' \<mapsto> JStr (str ''Sculptor''), ''dist_mpc'' \<mapsto> JNum 0.09,
      ''mass_log'' \<mapsto> JNum 6.5]"

definition rows_null_name :: "obj list" where
  \<comment> \<open>a row with its coordinates and an empty \<open>name\<close> cell\<close>
  "rows_null_name =
     [[''name'' \<mapsto> JNull, ''sg_xx'' \<mapsto> JNum 100, ''sg_yy'' \<mapsto> JNum 200,
       ''sg_zz'' \<mapsto> JNum 300, ''mass_stellar'' \<mapsto> JNum 8, ''distance'' \<mapsto> JNum 1000]]"

definition ngc_a :: obj where
  "ngc_a =
     [''name'' \<mapsto> JStr (str ''NGC 55''), ''x'' \<mapsto> JNum 1, ''y'' \<mapsto> JNum 0, ''z'' \<mapsto> JNum 0,
      ''mass_log'' \<mapsto> JNum 9, ''dist_mpc'' \<mapsto> JNum 2]"

definition ngc_b :: obj where
  "ngc_b =
     [''name'' \<mapsto> JStr (str ''NGC 300''), ''x'' \<mapsto> JNum 2, ''y'' \<mapsto> JNum 0, ''z'' \<mapsto> JNum 0,
      ''mass_log'' \<mapsto> JNum 9, ''dist_mpc'' \<mapsto> JNum 2]"

definition two_matches :: "obj list" where
  \<comment> \<open>what the filter pass makes of \<open>[ngc_a, ngc_b]\<close> for the search string \<open>ngc\<close>\<close>
  "two_matches = [ngc_a(''isMatch'' \<mapsto> JBool True), ngc_b(''isMatch'' \<mapsto> JBool True)]"

section \<open>Facts about loadData\<close>

lemma not_null_iff: "not_null v \<longleftrightarrow> v \<noteq> JNull \<and> v \<noteq> JUndefined"
  by (cases v) simp_all

lemma has_coords_iff:
  "has_coords row \<longleftrightarrow>
     (get row ''sg_xx'' \<noteq> JNull \<and> get row ''sg_xx'' \<noteq> JUndefined) \<and>
     (get row ''sg_yy'' \<noteq> JNull \<and> get row ''sg_yy'' \<noteq> JUndefined) \<and>
     (get row ''sg_zz'' \<noteq> JNull \<and> get row ''sg_zz'' \<noteq> JUndefined)"
  by (simp only: has_coords_def not_null_iff)

lemma loadData_eq:
  "loadData sn rows =
     map (\<lambda>(index, row). make_record sn (js_gt sn (scan_maxMass sn rows) (JNum 20)) index row)
       (enumerate 0 (filter has_coords rows))"
  by (cases rows) (simp_all add: loadData_def Let_def)

lemma length_loadData: "length (loadData sn rows) = length (filter has_coords rows)"
  by (simp add: loadData_eq)

lemma nth_loadData:
  "i < length (filter has_coords rows) \<Longrightarrow>
   loadData sn rows ! i =
     make_record sn (js_gt sn (scan_maxMass sn rows) (JNum 20)) i (filter has_coords rows ! i)"
  by (simp add: loadData_eq nth_enumerate_eq)

lemma make_record_passthrough:
  assumes "k \<in> dom row" and "k \<notin> {''x'', ''y'', ''z'', ''mass_log'', ''dist_mpc''}"
  shows "make_record sn isLinear i row k = row k"
proof -
  from assms(1) obtain v where "row k = Some v" by auto
  with assms(2) show ?thesis
    by (simp add: make_record_def map_add_def)
qed

lemma make_record_id_fresh:
  "''id'' \<notin> dom row \<Longrightarrow> make_record sn isLinear i row ''id'' = Some (JNum (real i))"
  by (simp add: make_record_def map_add_def domIff)

lemma loadData_id_without_id_column:
  assumes "\<forall>row \<in> set rows. ''id'' \<notin> dom row" and "i < length (loadData sn rows)"
  shows "get (loadData sn rows ! i) ''id'' = JNum (real i)"
proof -
  from assms(2) have i: "i < length (filter has_coords rows)"
    by (simp add: length_loadData)
  then have "filter has_coords rows ! i \<in> set rows"
    using nth_mem [of i "filter has_coords rows"] by auto
  with assms(1) have "''id'' \<notin> dom (filter has_coords rows ! i)" by blast
  then show ?thesis
    by (simp add: nth_loadData [OF i] make_record_id_fresh get_def)
qed

text \<open>
  C8. The output of \<open>loadData\<close> is, in order, the rows whose three coordinate cells
  \<open>sg_xx\<close>, \<open>sg_yy\<close>, \<open>sg_zz\<close> are all neither \<open>null\<close> nor \<open>undefined\<close>: the output
  has as many records as the input has rows, less the rows that lack a coordinate,
  and the record at each position carries every cell of the row at that position of the
  kept rows (the five derived fields apart, which are computed).
\<close>

theorem loadData_keeps_exactly_rows_with_coords:
  "length (loadData sn rows) =
     length rows -
     length (filter (\<lambda>row. \<exists>k \<in> {''sg_xx'', ''sg_yy'', ''sg_zz''}.
                        get row k = JNull \<or> get row k = JUndefined) rows)
   \<and> list_all2
        (\<lambda>row r. \<forall>k \<in> dom row - {''x'', ''y'', ''z'', ''mass_log'', ''dist_mpc''}. r k = row k)
        (filter (\<lambda>row. \<forall>k \<in> {''sg_xx'', ''sg_yy'', ''sg_zz''}.
                        get row k \<noteq> JNull \<and> get row k \<noteq> JUndefined) rows)
        (loadData sn rows)"
proof -
  have keep: "(\<lambda>row. \<forall>k \<in> {''sg_xx'', ''sg_yy'', ''sg_zz''}.
                        get row k \<noteq> JNull \<and> get row k \<noteq> JUndefined) = has_coords"
    by (rule ext) (simp add: has_coords_iff)
  have drop: "(\<lambda>row. \<exists>k \<in> {''sg_xx'', ''sg_yy'', ''sg_zz''}.
                        get row k = JNull \<or> get row k = JUndefined) = (\<lambda>row. \<not> has_coords row)"
    by (rule ext) (auto simp: has_coords_iff)
  have "length (filter has_coords rows) + length (filter (\<lambda>row. \<not> has_coords row) rows)
          = length rows"
    by (rule sum_length_filter_compl)
  then have len: "length (loadData sn rows) =
      length rows - length (filter (\<lambda>row. \<not> has_coords row) rows)"
    by (simp add: length_loadData)
  have rel: "list_all2
        (\<lambda>row r. \<forall>k \<in> dom row - {''x'', ''y'', ''z'', ''mass_log'', ''dist_mpc''}. r k = row k)
        (filter has_coords rows) (loadData sn rows)"
    unfolding list_all2_conv_all_nth
    using make_record_passthrough by (simp add: length_loadData nth_loadData)
  show ?thesis
    unfolding keep drop using len rel by (rule conjI)
qed

theorem loadData_keeps_exactly_rows_with_coords_witness:
  "length (loadData no_numeral rows_missing_yy) = 3 - 1 \<and>
   map (\<lambda>r. r ''name'') (loadData no_numeral rows_missing_yy) = [Some (JStr (str ''A'')), Some (JStr (str ''C''))]"
  using loadData_keeps_exactly_rows_with_coords [where sn = no_numeral and rows = rows_missing_yy]
  by (auto simp add: rows_missing_yy_def get_def list_all2_Cons1)

text \<open>
  C2. On a catalogue that has a column \<open>id\<close>, the emitted \<open>id\<close> is the cell of that
  column: the literal writes \<open>id: index\<close> before it spreads the row, and the row's
  entry replaces it. Here both records get the id 7, which is neither their index nor
  unique. (For rows without such a column the id is the index:
  \<open>loadData_id_without_id_column\<close>.)
\<close>

theorem loadData_id_column_replaces_index:
  "map (\<lambda>r. get r ''id'') (loadData sn rows_with_id) = [JNum 7, JNum 7]"
  by (simp add: rows_with_id_def loadData_def has_coords_def get_def make_record_def Let_def)

subsection \<open>The mass scale\<close>

lemma scan_step_num:
  assumes "mass_cell_ok row" and "0 \<le> a"
  shows "scan_step sn (JNum a) row = JNum (max a (mass_or_0 row))"
  using assms
  by (cases "get row ''mass_stellar''")
     (simp_all add: scan_step_def mass_cell_ok_def mass_or_0_def js_gt_def max_def)

lemma foldl_scan_num:
  assumes "\<forall>row \<in> set rows. mass_cell_ok row" and "0 \<le> a"
  shows "foldl (scan_step sn) (JNum a) rows = JNum (Max (insert a (set (map mass_or_0 rows))))"
  using assms
proof (induction rows arbitrary: a)
  case Nil
  then show ?case by simp
next
  case (Cons row rows)
  have le: "0 \<le> max a (mass_or_0 row)"
    using Cons.prems(2) by simp
  have "foldl (scan_step sn) (JNum a) (row # rows) =
          foldl (scan_step sn) (JNum (max a (mass_or_0 row))) rows"
    using Cons.prems by (simp add: scan_step_num)
  also have "\<dots> = JNum (Max (insert (max a (mass_or_0 row)) (set (map mass_or_0 rows))))"
    using Cons.IH [OF _ le] Cons.prems(1) by simp
  also have "Max (insert (max a (mass_or_0 row)) (set (map mass_or_0 rows)))
      = Max (insert a (set (map mass_or_0 (row # rows))))"
  proof (cases "rows = []")
    case True
    then show ?thesis by (simp add: max.commute)
  next
    case False
    then show ?thesis
      by (simp add: max.assoc max.commute max.left_commute)
  qed
  finally show ?case .
qed

lemma isLinear_iff:
  assumes "\<forall>row \<in> set rows. mass_cell_ok row" and "rows \<noteq> []"
  shows "js_gt sn (scan_maxMass sn rows) (JNum 20) \<longleftrightarrow> 20 < Max (set (map mass_or_0 rows))"
proof -
  have fin: "finite (set (map mass_or_0 rows))" and ne: "set (map mass_or_0 rows) \<noteq> {}"
    using assms(2) by simp_all
  have "js_gt sn (scan_maxMass sn rows) (JNum 20) \<longleftrightarrow>
          20 < Max (insert 0 (set (map mass_or_0 rows)))"
    using foldl_scan_num [OF assms(1), of 0] by (simp add: scan_maxMass_def js_gt_def)
  also have "\<dots> \<longleftrightarrow> 20 < Max (set (map mass_or_0 rows))"
    using fin ne by (simp add: max_def)
  finally show ?thesis .
qed

lemma mass_of_row_num:
  assumes "mass_cell_ok row"
  shows "mass_of_row sn isLinear row =
     JNum (if isLinear \<and> 0 < mass_or_0 row then log 10 (mass_or_0 row) else mass_or_0 row)"
  using assms
  by (cases "get row ''mass_stellar''")
     (auto simp add: mass_of_row_def mass_cell_ok_def mass_or_0_def js_or_def js_gt_def
        Math_log10_def Let_def)

lemma make_record_mass_log:
  "get (make_record sn isLinear i row) ''mass_log'' = mass_of_row sn isLinear row"
  by (simp add: make_record_def get_def)

text \<open>
  C3. One decision for the whole load: with \<open>maxMass\<close> the greatest \<open>mass_stellar\<close> of
  all rows (a missing one counted as 0), the record made from a row has \<open>mass_log\<close> equal
  to \<open>log10(mass_stellar)\<close> when \<open>maxMass > 20\<close> and the row's mass is positive, and equal
  to the row's mass unchanged (0 when missing) otherwise. The mass cells are numbers or
  missing. In particular a row whose mass is exactly 0 gets \<open>mass_log = 0\<close> whatever the
  decision.
\<close>

theorem loadData_mass_log:
  assumes "\<forall>row \<in> set rows. mass_cell_ok row" and "i < length (loadData sn rows)"
  shows "get (loadData sn rows ! i) ''mass_log'' =
     (let row = filter has_coords rows ! i; mass = mass_or_0 row
      in JNum (if 20 < Max (set (map mass_or_0 rows)) \<and> 0 < mass then log 10 mass else mass))
   \<and> (mass_or_0 (filter has_coords rows ! i) = 0 \<longrightarrow>
        get (loadData sn rows ! i) ''mass_log'' = JNum 0)"
proof -
  from assms(2) have i: "i < length (filter has_coords rows)"
    by (simp add: length_loadData)
  then have mem: "filter has_coords rows ! i \<in> set rows"
    using nth_mem [of i "filter has_coords rows"] by auto
  then have ne: "rows \<noteq> []" by auto
  from mem assms(1) have ok: "mass_cell_ok (filter has_coords rows ! i)" by blast
  show ?thesis
    by (simp add: nth_loadData [OF i] make_record_mass_log mass_of_row_num [OF ok]
        isLinear_iff [OF assms(1) ne] Let_def)
qed

theorem loadData_mass_log_witness:
  "list_all mass_cell_ok rows_linear \<and> length (loadData no_numeral rows_linear) = 3 \<and>
   get (loadData no_numeral rows_linear ! 0) ''mass_log'' = JNum (log 10 1000) \<and>
   get (loadData no_numeral rows_linear ! 1) ''mass_log'' = JNum 0 \<and>
   get (loadData no_numeral rows_linear ! 2) ''mass_log'' = JNum 0"
proof -
  have ok: "\<forall>row \<in> set rows_linear. mass_cell_ok row"
    by (simp add: rows_linear_def mass_cell_ok_def get_def)
  have flt: "filter has_coords rows_linear = rows_linear"
    by (simp add: rows_linear_def has_coords_def get_def)
  have len: "length (loadData no_numeral rows_linear) = 3"
    by (simp add: length_loadData flt) (simp add: rows_linear_def)
  have mx: "Max (mass_or_0 ` set rows_linear) = 1000"
    by (simp add: rows_linear_def mass_or_0_def get_def)
  have m0: "mass_or_0 (rows_linear ! 0) = 1000" "mass_or_0 (rows_linear ! Suc 0) = 0"
    "mass_or_0 (rows_linear ! 2) = 0"
    by (simp_all add: rows_linear_def mass_or_0_def get_def)
  show ?thesis
    using ok len loadData_mass_log [OF ok, where sn = no_numeral and i = 0]
      loadData_mass_log [OF ok, where sn = no_numeral and i = 1]
      loadData_mass_log [OF ok, where sn = no_numeral and i = 2]
    by (simp add: flt mx m0 Let_def list_all_iff)
qed

text \<open>
  Rows whose mass and distance cells are numbers or missing give records whose
  \<open>mass_log\<close> and \<open>dist_mpc\<close> are numbers.
\<close>

lemma make_record_numeric:
  assumes "mass_cell_ok row" and "distance_cell_ok row"
  shows "numeric_record (make_record sn isLinear i row)"
proof -
  obtain m where m: "mass_of_row sn isLinear row = JNum m"
    using mass_of_row_num [OF assms(1)] by blast
  have r: "js_div sn (js_or (get row ''distance'') (JNum 0)) 1000 =
      JNum ((case get row ''distance'' of JNum r \<Rightarrow> r | _ \<Rightarrow> 0) / 1000)"
    using assms(2)
    by (cases "get row ''distance''") (simp_all add: distance_cell_ok_def js_or_def js_div_def)
  have g: "get (make_record sn isLinear i row) ''dist_mpc'' =
      js_div sn (js_or (get row ''distance'') (JNum 0)) 1000"
    by (simp add: make_record_def get_def)
  show ?thesis
    by (simp add: numeric_record_def make_record_mass_log g m r)
qed

lemma loadData_numeric_record:
  assumes "\<forall>row \<in> set rows. mass_cell_ok row \<and> distance_cell_ok row"
  shows "\<forall>d \<in> set (loadData sn rows). numeric_record d"
proof
  fix d assume "d \<in> set (loadData sn rows)"
  then obtain i where i: "i < length (loadData sn rows)" and d: "d = loadData sn rows ! i"
    by (auto simp: in_set_conv_nth)
  from i have i': "i < length (filter has_coords rows)"
    by (simp add: length_loadData)
  then have "filter has_coords rows ! i \<in> set rows"
    using nth_mem [of i "filter has_coords rows"] by auto
  with assms have "mass_cell_ok (filter has_coords rows ! i)"
    "distance_cell_ok (filter has_coords rows ! i)" by auto
  then show "numeric_record d"
    unfolding d nth_loadData [OF i'] by (rule make_record_numeric)
qed

section \<open>Facts about the filter pass\<close>

lemma keep_iff_passes:
  "numeric_record d \<Longrightarrow> keep sn maxDist minMass lg d = passes maxDist minMass lg d"
  by (cases "get d ''dist_mpc''"; cases "get d ''mass_log''")
     (auto simp add: numeric_record_def keep_def passes_def js_gt_def)

lemma filter_keep_passes:
  "\<forall>d \<in> set data. numeric_record d \<Longrightarrow>
   filter (keep sn maxDist minMass lg) data = filter (passes maxDist minMass lg) data"
  by (rule filter_cong) (simp_all add: keep_iff_passes)

lemma annotate_Inr:
  "annotate lower q ds = Inr out \<Longrightarrow>
   list_all2 (\<lambda>d r. \<exists>b. isMatch_of lower q d = Inr b \<and> r = d(''isMatch'' \<mapsto> JBool b)) ds out"
proof (induction ds arbitrary: out)
  case Nil
  then show ?case by simp
next
  case (Cons d ds)
  then show ?case
    by (auto split: sum.splits)
qed

lemma annotate_empty_query:
  "annotate lower [] ds = Inr (map (\<lambda>d. d(''isMatch'' \<mapsto> JBool True)) ds)"
  by (induction ds) (simp_all add: isMatch_of_def fun_upd_def)

lemma annotate_Inl_iff:
  "annotate lower q ds = Inl TypeError \<longleftrightarrow> (\<exists>d \<in> set ds. isMatch_of lower q d = Inl TypeError)"
proof (induction ds)
  case Nil
  then show ?case by simp
next
  case (Cons d ds)
  show ?case
  proof (cases "isMatch_of lower q d")
    case (Inl e)
    then show ?thesis by (cases e) simp
  next
    case (Inr b)
    then show ?thesis
      using Cons.IH by (cases "annotate lower q ds") auto
  qed
qed

lemma annotate_total:
  assumes "\<forall>d \<in> set ds. isMatch_of lower q d \<noteq> Inl TypeError"
  shows "\<exists>out. annotate lower q ds = Inr out"
proof (cases "annotate lower q ds")
  case (Inl e)
  then have "annotate lower q ds = Inl TypeError" by (cases e) simp
  with assms show ?thesis by (simp add: annotate_Inl_iff)
next
  case (Inr out)
  then show ?thesis by blast
qed

lemma isMatch_of_Inl_iff:
  "isMatch_of lower q d = Inl TypeError \<longleftrightarrow> q \<noteq> [] \<and> (\<forall>nm. get d ''name'' \<noteq> JStr nm)"
  by (cases "get d ''name''") (simp_all add: isMatch_of_def)

lemma startsWith_iff: "startsWith s q \<longleftrightarrow> (\<exists>ss. s = q @ ss)"
  by (induction s q rule: startsWith.induct) auto

lemma str_includes_iff: "str_includes s q \<longleftrightarrow> (\<exists>ps ss. s = ps @ q @ ss)"
proof (induction s)
  case Nil
  then show ?case by auto
next
  case (Cons c cs)
  show ?case
  proof
    assume "str_includes (c # cs) q"
    then consider "startsWith (c # cs) q" | "str_includes cs q" by auto
    then show "\<exists>ps ss. c # cs = ps @ q @ ss"
    proof cases
      case 1
      then obtain ss where "c # cs = q @ ss" by (auto simp: startsWith_iff)
      then have "c # cs = [] @ q @ ss" by simp
      then show ?thesis by blast
    next
      case 2
      then obtain ps ss where "cs = ps @ q @ ss" using Cons.IH by auto
      then have "c # cs = (c # ps) @ q @ ss" by simp
      then show ?thesis by blast
    qed
  next
    assume "\<exists>ps ss. c # cs = ps @ q @ ss"
    then obtain ps ss where eq: "c # cs = ps @ q @ ss" by auto
    show "str_includes (c # cs) q"
    proof (cases ps)
      case Nil
      with eq have "startsWith (c # cs) q" by (auto simp: startsWith_iff)
      then show ?thesis by simp
    next
      case (Cons p ps')
      with eq have "cs = ps' @ q @ ss" by simp
      then have "str_includes cs q" using Cons.IH by blast
      then show ?thesis by simp
    qed
  qed
qed

text \<open>
  C4. For records whose \<open>dist_mpc\<close> and \<open>mass_log\<close> are numbers, the filter keeps
  exactly the records with \<open>dist_mpc <= maxDist\<close>, \<open>mass_log >= minMass\<close> and, when the
  Local Group box is ticked, \<open>dist_mpc <= 3.0\<close>, in the order of the input: the array
  that \<open>processedData\<close> returns is that list, each record with its \<open>isMatch\<close> field
  set, and with an empty search it is always returned. A record at 5 Mpc is dropped for
  \<open>maxDist = 3\<close> whatever its mass, and one at 2 Mpc with \<open>mass_log = 5.9\<close> is dropped
  for \<open>minMass = 6\<close>.
\<close>

theorem processedData_keeps_exactly_passing:
  assumes "\<forall>d \<in> set data. numeric_record d"
  shows "filter (keep sn maxDist minMass lg) data = filter (passes maxDist minMass lg) data
    \<and> (processedData sn lower data maxDist minMass lg q = Inr out \<longrightarrow>
          list_all2 (\<lambda>d r. \<exists>b. r = d(''isMatch'' \<mapsto> JBool b))
            (filter (passes maxDist minMass lg) data) out)
    \<and> processedData sn lower data maxDist minMass lg [] =
          Inr (map (\<lambda>d. d(''isMatch'' \<mapsto> JBool True)) (filter (passes maxDist minMass lg) data))
    \<and> (get d1 ''dist_mpc'' = JNum 5 \<longrightarrow> \<not> keep sn 3 minMass lg d1)
    \<and> (get d2 ''dist_mpc'' = JNum 2 \<and> get d2 ''mass_log'' = JNum 5.9 \<longrightarrow> \<not> keep sn maxDist 6 lg d2)"
proof -
  have flt: "filter (keep sn maxDist minMass lg) data = filter (passes maxDist minMass lg) data"
    using assms by (rule filter_keep_passes)
  have "list_all2 (\<lambda>d r. \<exists>b. r = d(''isMatch'' \<mapsto> JBool b))
          (filter (passes maxDist minMass lg) data) out"
    if "processedData sn lower data maxDist minMass lg q = Inr out"
  proof -
    from that have
      "list_all2 (\<lambda>d r. \<exists>b. isMatch_of lower q d = Inr b \<and> r = d(''isMatch'' \<mapsto> JBool b))
         (filter (passes maxDist minMass lg) data) out"
      unfolding processedData_def flt by (rule annotate_Inr)
    then show ?thesis
      by (rule list_all2_mono) blast
  qed
  moreover have "processedData sn lower data maxDist minMass lg [] =
      Inr (map (\<lambda>d. d(''isMatch'' \<mapsto> JBool True)) (filter (passes maxDist minMass lg) data))"
    by (simp add: processedData_def flt annotate_empty_query)
  moreover have "get d1 ''dist_mpc'' = JNum 5 \<longrightarrow> \<not> keep sn 3 minMass lg d1"
    by (simp add: keep_def js_gt_def)
  moreover have
    "get d2 ''dist_mpc'' = JNum 2 \<and> get d2 ''mass_log'' = JNum 5.9 \<longrightarrow> \<not> keep sn maxDist 6 lg d2"
    by (simp add: keep_def js_gt_def)
  ultimately show ?thesis
    using flt by blast
qed

theorem processedData_keeps_exactly_passing_witness:
  "list_all numeric_record [far_heavy, near_light, near_heavy] \<and>
   filter (keep no_numeral 3 6 True) [far_heavy, near_light, near_heavy] = [near_heavy] \<and>
   filter (passes 3 6 True) [far_heavy, near_light, near_heavy] = [near_heavy] \<and>
   processedData no_numeral ascii_lower [far_heavy, near_light, near_heavy] 3 6 True [] =
     Inr [near_heavy(''isMatch'' \<mapsto> JBool True)]"
proof -
  have num: "\<forall>d \<in> set [far_heavy, near_light, near_heavy]. numeric_record d"
    by (simp add: numeric_record_def far_heavy_def near_light_def near_heavy_def get_def)
  have p: "\<not> passes 3 6 True far_heavy" "\<not> passes 3 6 True near_light"
    "passes 3 6 True near_heavy"
    by (simp_all add: passes_def far_heavy_def near_light_def near_heavy_def get_def)
  have k: "\<not> keep no_numeral 3 6 True far_heavy" "\<not> keep no_numeral 3 6 True near_light" "keep no_numeral 3 6 True near_heavy"
    by (simp_all add: keep_def js_gt_def far_heavy_def near_light_def near_heavy_def get_def)
  show ?thesis
    using num
      processedData_keeps_exactly_passing
        [OF num, where sn = no_numeral and lower = ascii_lower and maxDist = 3 and minMass = 6
           and lg = True and q = "[]" and out = "[near_heavy(''isMatch'' \<mapsto> JBool True)]"
           and ?d1.0 = far_heavy and ?d2.0 = near_light]
    by (simp add: p k list_all_iff)
qed

lemma isMatch_of_string:
  assumes "get d ''name'' = JStr nm"
  shows "isMatch_of lower q d = Inr (q = [] \<or> (\<exists>ps ss. lower nm = ps @ lower q @ ss))"
  using assms by (simp add: isMatch_of_def str_includes_iff)

lemma annotate_strings:
  assumes "\<forall>d \<in> set ds. \<exists>nm. get d ''name'' = JStr nm"
  shows "\<exists>out. annotate lower q ds = Inr out \<and>
     list_all2
       (\<lambda>d r. \<exists>nm. get d ''name'' = JStr nm \<and>
          r = d(''isMatch'' \<mapsto> JBool (q = [] \<or> (\<exists>ps ss. lower nm = ps @ lower q @ ss))))
       ds out"
  using assms
proof (induction ds)
  case Nil
  then show ?case by simp
next
  case (Cons d ds)
  from Cons.prems obtain nm where nm: "get d ''name'' = JStr nm" by auto
  from Cons.prems have "\<forall>d \<in> set ds. \<exists>nm. get d ''name'' = JStr nm" by simp
  with Cons.IH obtain out where out: "annotate lower q ds = Inr out"
    and rel: "list_all2
       (\<lambda>d r. \<exists>nm. get d ''name'' = JStr nm \<and>
          r = d(''isMatch'' \<mapsto> JBool (q = [] \<or> (\<exists>ps ss. lower nm = ps @ lower q @ ss))))
       ds out"
    by blast
  let ?r = "d(''isMatch'' \<mapsto> JBool (q = [] \<or> (\<exists>ps ss. lower nm = ps @ lower q @ ss)))"
  have "annotate lower q (d # ds) = Inr (?r # out)"
    by (simp add: isMatch_of_string [OF nm] out)
  moreover have "list_all2
       (\<lambda>d r. \<exists>nm. get d ''name'' = JStr nm \<and>
          r = d(''isMatch'' \<mapsto> JBool (q = [] \<or> (\<exists>ps ss. lower nm = ps @ lower q @ ss))))
       (d # ds) (?r # out)"
    using nm rel by auto
  ultimately show ?case by blast
qed

text \<open>
  C5. When every record's name is a string, the filter pass returns, and its result is
  the list of the records that pass the filter, in their order, each with \<open>isMatch\<close>
  set: to \<open>true\<close> if the search string is empty, and otherwise to whether the lower-cased
  search string occurs in the lower-cased name of that record. With an empty search
  string it returns whatever the names are, every \<open>isMatch\<close> true. For the search string
  \<open>andromeda\<close>, a record named \<open>Andromeda Galaxy\<close> gets \<open>isMatch = true\<close> and one named
  \<open>Sculptor\<close> gets \<open>isMatch = false\<close>, given what lower-casing makes of these three
  strings.
\<close>

theorem processedData_isMatch:
  assumes "\<forall>d \<in> set data. \<exists>nm. get d ''name'' = JStr nm"
  shows "(\<exists>out. processedData sn lower data maxDist minMass lg q = Inr out \<and>
            list_all2
              (\<lambda>d r. \<exists>nm. get d ''name'' = JStr nm \<and>
                 r = d(''isMatch'' \<mapsto>
                       JBool (q = [] \<or> (\<exists>ps ss. lower nm = ps @ lower q @ ss))))
              (filter (keep sn maxDist minMass lg) data) out)
    \<and> processedData sn lower data' maxDist minMass lg [] =
         Inr (map (\<lambda>d. d(''isMatch'' \<mapsto> JBool True))
                (filter (keep sn maxDist minMass lg) data'))
    \<and> (lower (str ''andromeda'') = str ''andromeda'' \<and>
        lower (str ''Andromeda Galaxy'') = str ''andromeda galaxy'' \<and>
        lower (str ''Sculptor'') = str ''sculptor'' \<and>
        get a ''name'' = JStr (str ''Andromeda Galaxy'') \<and>
        get s ''name'' = JStr (str ''Sculptor'') \<and>
        keep sn maxDist minMass lg a \<and> keep sn maxDist minMass lg s \<longrightarrow>
        processedData sn lower [a, s] maxDist minMass lg (str ''andromeda'') =
          Inr [a(''isMatch'' \<mapsto> JBool True), s(''isMatch'' \<mapsto> JBool False)])"
proof (intro conjI impI)
  have "\<forall>d \<in> set (filter (keep sn maxDist minMass lg) data). \<exists>nm. get d ''name'' = JStr nm"
    using assms by simp
  then show "\<exists>out. processedData sn lower data maxDist minMass lg q = Inr out \<and>
            list_all2
              (\<lambda>d r. \<exists>nm. get d ''name'' = JStr nm \<and>
                 r = d(''isMatch'' \<mapsto>
                       JBool (q = [] \<or> (\<exists>ps ss. lower nm = ps @ lower q @ ss))))
              (filter (keep sn maxDist minMass lg) data) out"
    unfolding processedData_def by (rule annotate_strings)
next
  show "processedData sn lower data' maxDist minMass lg [] =
         Inr (map (\<lambda>d. d(''isMatch'' \<mapsto> JBool True))
                (filter (keep sn maxDist minMass lg) data'))"
    by (simp add: processedData_def annotate_empty_query)
next
  assume h: "lower (str ''andromeda'') = str ''andromeda'' \<and>
        lower (str ''Andromeda Galaxy'') = str ''andromeda galaxy'' \<and>
        lower (str ''Sculptor'') = str ''sculptor'' \<and>
        get a ''name'' = JStr (str ''Andromeda Galaxy'') \<and>
        get s ''name'' = JStr (str ''Sculptor'') \<and>
        keep sn maxDist minMass lg a \<and> keep sn maxDist minMass lg s"
  have q: "str ''andromeda'' \<noteq> []"
    by (simp add: str_def)
  have inc: "str_includes (str ''andromeda galaxy'') (str ''andromeda'')"
    "\<not> str_includes (str ''sculptor'') (str ''andromeda'')"
    by (simp_all add: str_def)
  from h q inc have
    "isMatch_of lower (str ''andromeda'') a = Inr True"
    "isMatch_of lower (str ''andromeda'') s = Inr False"
    by (simp_all add: isMatch_of_def)
  with h show "processedData sn lower [a, s] maxDist minMass lg (str ''andromeda'') =
          Inr [a(''isMatch'' \<mapsto> JBool True), s(''isMatch'' \<mapsto> JBool False)]"
    by (simp add: processedData_def)
qed

theorem processedData_isMatch_witness:
  "ascii_lower (str ''Andromeda Galaxy'') = str ''andromeda galaxy''
   \<and> ascii_lower (str ''Sculptor'') = str ''sculptor''
   \<and> processedData no_numeral ascii_lower [andromeda, sculptor] 11 6 False (str ''andromeda'') =
       Inr [andromeda(''isMatch'' \<mapsto> JBool True), sculptor(''isMatch'' \<mapsto> JBool False)]
   \<and> processedData no_numeral ascii_lower [andromeda, sculptor] 11 6 False [] =
       Inr [andromeda(''isMatch'' \<mapsto> JBool True), sculptor(''isMatch'' \<mapsto> JBool True)]"
proof -
  have names: "\<forall>d \<in> set [andromeda, sculptor]. \<exists>nm. get d ''name'' = JStr nm"
    by (simp add: andromeda_def sculptor_def get_def)
  have k: "keep no_numeral 11 6 False andromeda" "keep no_numeral 11 6 False sculptor"
    by (simp_all add: keep_def js_gt_def get_def andromeda_def sculptor_def)
  have l: "ascii_lower (str ''andromeda'') = str ''andromeda''"
    "ascii_lower (str ''Andromeda Galaxy'') = str ''andromeda galaxy''"
    "ascii_lower (str ''Sculptor'') = str ''sculptor''"
    by (simp_all add: ascii_lower_def str_def)
  have n: "get andromeda ''name'' = JStr (str ''Andromeda Galaxy'')"
    "get sculptor ''name'' = JStr (str ''Sculptor'')"
    by (simp_all add: andromeda_def sculptor_def get_def)
  from processedData_isMatch
    [OF names, where sn = no_numeral and lower = ascii_lower and maxDist = 11 and minMass = 6
       and lg = False and q = "[]" and data' = "[andromeda, sculptor]"
       and a = andromeda and s = sculptor]
  show ?thesis
    using k l n by simp
qed

text \<open>
  C10. The filter pass throws exactly when a search string is given and some record that
  passes the filter has a \<open>name\<close> that is not a string: \<open>toLowerCase\<close> is called on it
  with no guard. \<open>loadData\<close> checks the three coordinates only, so a row with an empty
  or absent name cell becomes such a record.
\<close>

theorem processedData_throws_iff:
  "processedData sn lower data maxDist minMass lg q = Inl TypeError \<longleftrightarrow>
     q \<noteq> [] \<and>
     (\<exists>d \<in> set (filter (keep sn maxDist minMass lg) data). \<forall>nm. get d ''name'' \<noteq> JStr nm)"
  by (simp only: processedData_def annotate_Inl_iff isMatch_of_Inl_iff) blast

theorem processedData_throws_iff_witness:
  "length (loadData no_numeral rows_null_name) = 1 \<and>
   processedData no_numeral ascii_lower (loadData no_numeral rows_null_name) 11 6 False (str ''m31'') = Inl TypeError \<and>
   processedData no_numeral ascii_lower [near_heavy(''name'' := None)] 11 6 False (str ''m31'') = Inl TypeError"
proof -
  have k: "filter (keep no_numeral 11 6 False) (loadData no_numeral rows_null_name) = loadData no_numeral rows_null_name"
    and n: "get (loadData no_numeral rows_null_name ! 0) ''name'' = JNull"
    and l: "length (loadData no_numeral rows_null_name) = 1"
    by (simp_all add: rows_null_name_def loadData_def has_coords_def get_def make_record_def
        Let_def mass_of_row_def scan_maxMass_def scan_step_def js_gt_def js_or_def js_div_def
        keep_def)
  have k2: "keep no_numeral 11 6 False (near_heavy(''name'' := None))"
    by (simp add: near_heavy_def keep_def js_gt_def get_def)
  from l n have ex: "\<exists>d \<in> set (loadData no_numeral rows_null_name). \<forall>nm. get d ''name'' \<noteq> JStr nm"
    by (cases "loadData no_numeral rows_null_name") auto
  show ?thesis
    using l ex
      processedData_throws_iff
        [where sn = no_numeral and lower = ascii_lower
           and data = "loadData no_numeral rows_null_name"
           and maxDist = 11 and minMass = 6 and lg = False and q = "str ''m31''"]
      processedData_throws_iff
        [where sn = no_numeral and lower = ascii_lower
           and data = "[near_heavy(''name'' := None)]"
           and maxDist = 11 and minMass = 6 and lg = False and q = "str ''m31''"]
    by (simp add: k k2 get_def str_def)
qed

section \<open>Facts about the particle attributes\<close>

lemma memo_fields:
  "sizes (foldl (memo_step sn C mt sa) acc xs) = sizes acc @ map (\<lambda>(i, d). baseSize sn (get d ''mass_log'')) xs"
  "matchedGalaxy (foldl (memo_step sn C mt sa) acc xs) =
     foldl (\<lambda>m d. if sa \<and> truthy (get d ''isMatch'') then Some d else m) (matchedGalaxy acc) (map snd xs)"
  by (induction xs arbitrary: acc) (simp_all add: memo_step_def split: prod.splits)

lemma memo_colors:
  "colors (foldl (memo_step sn C mt sa) acc xs) =
     colors acc @
     concat (map (\<lambda>(i, d). case color_of sn C (get d ''mass_log'') of (r, g, b) \<Rightarrow> [r, g, b]) xs)"
  "positions (foldl (memo_step sn C mt sa) acc xs) =
     positions acc @ concat (map (\<lambda>(i, d). [get d ''x'', get d ''y'', get d ''z'']) xs)"
  by (induction xs arbitrary: acc) (simp_all add: memo_step_def split: prod.splits)

lemma foldl_last_match:
  "foldl (\<lambda>m d. if P d then Some d else m) m0 ds =
     (if filter P ds = [] then m0 else Some (last (filter P ds)))"
  by (induction ds arbitrary: m0) simp_all

lemma map_snd_enumerate: "map snd (enumerate n xs) = xs"
  by (simp add: enumerate_eq_zip)

lemma marker_position_eq:
  "marker_position (GalaxyParticles_memo sn Color data massThreshold searchActive) =
     (if filter (\<lambda>d. searchActive \<and> truthy (get d ''isMatch'')) data = [] then None
      else Some
        (get (last (filter (\<lambda>d. searchActive \<and> truthy (get d ''isMatch'')) data)) ''x'',
         get (last (filter (\<lambda>d. searchActive \<and> truthy (get d ''isMatch'')) data)) ''y'',
         get (last (filter (\<lambda>d. searchActive \<and> truthy (get d ''isMatch'')) data)) ''z''))"
proof -
  let ?P = "\<lambda>d. searchActive \<and> truthy (get d ''isMatch'')"
  have m: "matchedGalaxy (GalaxyParticles_memo sn Color data massThreshold searchActive) =
      (if filter ?P data = [] then None else Some (last (filter ?P data)))"
    unfolding GalaxyParticles_memo_def memo_fields map_snd_enumerate foldl_last_match
    by (simp add: memo_init_def)
  show ?thesis
    by (simp add: marker_position_def m)
qed

text \<open>
  C1, as amended. The loop over the records overwrites \<open>match\<close> at every record whose
  \<open>isMatch\<close> is true, so while a search is active the marker is drawn at the position of
  the last such record in the order of the array, and no marker is drawn when there is
  none or when no search is active.
\<close>

theorem marker_is_last_match:
  "marker_position (GalaxyParticles_memo sn Color data massThreshold searchActive) =
     (let matches = filter (\<lambda>d. truthy (get d ''isMatch'')) data
      in if searchActive \<and> matches \<noteq> []
         then Some (get (last matches) ''x'', get (last matches) ''y'', get (last matches) ''z'')
         else None)"
proof (cases searchActive)
  case True
  then show ?thesis
    unfolding marker_position_eq by (simp add: Let_def)
next
  case False
  then show ?thesis
    unfolding marker_position_eq by (simp add: Let_def)
qed

text \<open>
  C1, as stated, fails: for the search string \<open>ngc\<close> both sample records match; the
  first of them lies at \<open>(1, 0, 0)\<close>, and the marker is drawn at \<open>(2, 0, 0)\<close>, the
  position of the second.
\<close>

theorem marker_is_not_first_match:
  "processedData no_numeral ascii_lower [ngc_a, ngc_b] 11 6 False (str ''ngc'') = Inr two_matches
   \<and> first_match_position two_matches = Some (JNum 1, JNum 0, JNum 0)
   \<and> marker_position (GalaxyParticles_memo no_numeral THREE_Color two_matches 9 True) =
        Some (JNum 2, JNum 0, JNum 0)
   \<and> marker_position (GalaxyParticles_memo no_numeral THREE_Color two_matches 9 True)
        \<noteq> first_match_position two_matches"
proof -
  have a: "processedData no_numeral ascii_lower [ngc_a, ngc_b] 11 6 False (str ''ngc'') = Inr two_matches"
    by (simp add: processedData_def keep_def js_gt_def get_def ngc_a_def ngc_b_def
        isMatch_of_def ascii_lower_def str_def two_matches_def)
  have b: "first_match_position two_matches = Some (JNum 1, JNum 0, JNum 0)"
    by (simp add: first_match_position_def two_matches_def get_def ngc_a_def)
  have c: "marker_position (GalaxyParticles_memo no_numeral THREE_Color two_matches 9 True) =
      Some (JNum 2, JNum 0, JNum 0)"
    unfolding marker_position_eq
    by (simp add: two_matches_def get_def ngc_b_def)
  from a b c show ?thesis by simp
qed

subsection \<open>Sizes\<close>

text \<open>
  C7. A numeric \<open>mass_log\<close> gets exactly one of the three sizes: 1.5 below 8, 2.5 from 8
  up to but not including 10, and 4 from 10 on; 8 itself gets 2.5 and 10 itself gets 4.
\<close>

theorem baseSize_buckets:
  "(baseSize sn (JNum m) = 1.5 \<longleftrightarrow> m < 8) \<and>
   (baseSize sn (JNum m) = 2.5 \<longleftrightarrow> 8 \<le> m \<and> m < 10) \<and>
   (baseSize sn (JNum m) = 4 \<longleftrightarrow> 10 \<le> m) \<and>
   baseSize sn (JNum m) \<in> {1.5, 2.5, 4} \<and>
   baseSize sn (JNum 7.9) = 1.5 \<and> baseSize sn (JNum 8) = 2.5 \<and>
   baseSize sn (JNum 9.99) = 2.5 \<and> baseSize sn (JNum 10) = 4"
  by (simp add: baseSize_def)

subsection \<open>Colours\<close>

lemma lerp_0: "lerpColors c0 c1 0 = c0"
  by (cases c0; cases c1) (simp add: lerpColors_def)

lemma lerp_1: "lerpColors c0 c1 1 = c1"
  by (cases c0; cases c1) (simp add: lerpColors_def)

lemma getMagma_segments:
  fixes t :: real
  assumes "0 \<le> t" "t \<le> 1"
  shows "getMagmaColor Color t =
    (if t \<le> 0.2 then lerpColors (Color ''#000004'') (Color ''#3B0F70'') ((t - 0) / (0.2 - 0))
     else if t \<le> 0.4 then lerpColors (Color ''#3B0F70'') (Color ''#8C2981'') ((t - 0.2) / (0.4 - 0.2))
     else if t \<le> 0.6 then lerpColors (Color ''#8C2981'') (Color ''#DE4968'') ((t - 0.4) / (0.6 - 0.4))
     else if t \<le> 0.8 then lerpColors (Color ''#DE4968'') (Color ''#FE9F6D'') ((t - 0.6) / (0.8 - 0.6))
     else lerpColors (Color ''#FE9F6D'') (Color ''#FCFDBF'') ((t - 0.8) / (1.0 - 0.8)))"
  using assms by (simp add: getMagmaColor_def colorStops_def Let_def)

lemma less_5_cases: "i < (5::nat) \<longleftrightarrow> i = 0 \<or> i = 1 \<or> i = 2 \<or> i = 3 \<or> i = 4"
  by arith

lemma getMagmaColor_clamp:
  "getMagmaColor Color x = getMagmaColor Color (max 0 (min 1 x))"
  by (simp add: getMagmaColor_def Let_def max_def min_def)

lemma getMagma_bracket:
  fixes t :: real
  assumes t: "0 \<le> t" "t \<le> 1" and i: "i < 5"
    and lo: "fst (colorStops Color ! i) \<le> t" and hi: "t \<le> fst (colorStops Color ! Suc i)"
  shows "getMagmaColor Color t =
     lerpColors (snd (colorStops Color ! i)) (snd (colorStops Color ! Suc i))
       ((t - fst (colorStops Color ! i)) / (fst (colorStops Color ! Suc i) - fst (colorStops Color ! i)))"
proof -
  from i consider "i = 0" | "i = 1" | "i = 2" | "i = 3" | "i = 4"
    by (auto simp: less_5_cases)
  then show ?thesis
  proof cases
    case 1
    with lo hi show ?thesis
      by (simp add: getMagma_segments [OF t] colorStops_def)
  next
    case 2
    with lo hi have b: "0.2 \<le> t" "t \<le> 0.4" by (simp_all add: colorStops_def)
    show ?thesis
    proof (cases "t = 0.2")
      case True
      then show ?thesis using 2 by (simp add: getMagma_segments [OF t] colorStops_def lerp_0 lerp_1)
    next
      case False
      with b have "\<not> t \<le> 0.2" by simp
      then show ?thesis using 2 b by (simp add: getMagma_segments [OF t] colorStops_def)
    qed
  next
    case 3
    with lo hi have b: "0.4 \<le> t" "t \<le> 0.6" by (simp_all add: colorStops_def)
    show ?thesis
    proof (cases "t = 0.4")
      case True
      then show ?thesis using 3 by (simp add: getMagma_segments [OF t] colorStops_def lerp_0 lerp_1)
    next
      case False
      with b have "\<not> t \<le> 0.4" by simp
      then have "\<not> t \<le> 0.2" by simp
      with \<open>\<not> t \<le> 0.4\<close> show ?thesis using 3 b by (simp add: getMagma_segments [OF t] colorStops_def)
    qed
  next
    case 4
    have s: "Suc 3 = 4" by simp
    from 4 lo hi have b: "0.6 \<le> t" "t \<le> 0.8" by (simp_all add: colorStops_def s)
    show ?thesis
    proof (cases "t = 0.6")
      case True
      then show ?thesis using 4 by (simp add: getMagma_segments [OF t] colorStops_def lerp_0 lerp_1 s)
    next
      case False
      with b have n: "\<not> t \<le> 0.6" by simp
      then have "\<not> t \<le> 0.4" "\<not> t \<le> 0.2" by simp_all
      with n show ?thesis using 4 b by (simp add: getMagma_segments [OF t] colorStops_def s)
    qed
  next
    case 5
    have s: "Suc 4 = 5" by simp
    from 5 lo hi have b: "0.8 \<le> t" by (simp_all add: colorStops_def s)
    show ?thesis
    proof (cases "t = 0.8")
      case True
      then show ?thesis using 5 by (simp add: getMagma_segments [OF t] colorStops_def lerp_0 lerp_1 s)
    next
      case False
      with b have n: "\<not> t \<le> 0.8" by simp
      then have "\<not> t \<le> 0.6" "\<not> t \<le> 0.4" "\<not> t \<le> 0.2" by simp_all
      with n show ?thesis using 5 b by (simp add: getMagma_segments [OF t] colorStops_def s)
    qed
  qed
qed

lemma bracket_exists:
  fixes t :: real
  assumes "0 \<le> t" "t \<le> 1"
  shows "\<exists>i<5. fst (colorStops Color ! i) \<le> t \<and> t \<le> fst (colorStops Color ! Suc i)"
proof -
  consider "t \<le> 0.2" | "0.2 \<le> t" "t \<le> 0.4" | "0.4 \<le> t" "t \<le> 0.6" | "0.6 \<le> t" "t \<le> 0.8" | "0.8 \<le> t"
    by linarith
  then show ?thesis
  proof cases
    case 1
    with assms have "(0::nat) < 5 \<and> fst (colorStops Color ! 0) \<le> t \<and> t \<le> fst (colorStops Color ! Suc 0)"
      by (simp add: colorStops_def)
    then show ?thesis by blast
  next
    case 2
    then have "(1::nat) < 5 \<and> fst (colorStops Color ! 1) \<le> t \<and> t \<le> fst (colorStops Color ! Suc 1)"
      by (simp add: colorStops_def)
    then show ?thesis by blast
  next
    case 3
    then have "(2::nat) < 5 \<and> fst (colorStops Color ! 2) \<le> t \<and> t \<le> fst (colorStops Color ! Suc 2)"
      by (simp add: colorStops_def)
    then show ?thesis by blast
  next
    case 4
    have s: "Suc 3 = 4" by simp
    from 4 have "(3::nat) < 5 \<and> fst (colorStops Color ! 3) \<le> t \<and> t \<le> fst (colorStops Color ! Suc 3)"
      by (simp add: colorStops_def s)
    then show ?thesis by blast
  next
    case 5
    have s: "Suc 4 = 5" by simp
    from 5 assms have "(4::nat) < 5 \<and> fst (colorStops Color ! 4) \<le> t \<and> t \<le> fst (colorStops Color ! Suc 4)"
      by (simp add: colorStops_def s)
    then show ?thesis by blast
  qed
qed

text \<open>
  C6. For a numeric \<open>mass_log\<close> the colour is computed from
  \<open>t = clamp((mass_log - 6.0) / 5.5, 0, 1)\<close>. The palette has the six stops at
  0, 0.2, 0.4, 0.6, 0.8 and 1 with the six colours of the source. Whichever two
  consecutive stops bracket \<open>t\<close>, with colours \<open>(r1, g1, b1)\<close> and \<open>(r2, g2, b2)\<close> and
  \<open>t\<close> the fraction \<open>f\<close> of the way from the first to the second, the colour is
  \<open>(r1 + (r2 - r1) f, g1 + (g2 - g1) f, b1 + (b2 - b1) f)\<close>; and some two consecutive
  stops always bracket \<open>t\<close>. So 6.0 gives the first colour of the palette and 11.5 the
  last, and 3.25 and 20 are clamped to the first and the last.
\<close>

theorem color_of_interpolates:
  "(let t = max 0 (min 1 ((m - 6.0) / 5.5)); stops = colorStops Color
    in (\<forall>i<5. fst (stops ! i) \<le> t \<and> t \<le> fst (stops ! Suc i) \<longrightarrow>
          (case (snd (stops ! i), snd (stops ! Suc i),
                 (t - fst (stops ! i)) / (fst (stops ! Suc i) - fst (stops ! i))) of
             ((r1, g1, b1), (r2, g2, b2), f) \<Rightarrow>
               color_of sn Color (JNum m) =
                 (r1 + (r2 - r1) * f, g1 + (g2 - g1) * f, b1 + (b2 - b1) * f)))
       \<and> (\<exists>i<5. fst (stops ! i) \<le> t \<and> t \<le> fst (stops ! Suc i)))
   \<and> map fst (colorStops Color) = [0, 0.2, 0.4, 0.6, 0.8, 1]
   \<and> map snd (colorStops Color) =
       map Color [''#000004'', ''#3B0F70'', ''#8C2981'', ''#DE4968'', ''#FE9F6D'', ''#FCFDBF'']
   \<and> color_of sn Color (JNum 6.0) = Color ''#000004''
   \<and> color_of sn Color (JNum 11.5) = Color ''#FCFDBF''
   \<and> color_of sn Color (JNum 3.25) = Color ''#000004''
   \<and> color_of sn Color (JNum 20) = Color ''#FCFDBF''"
proof -
  define t :: real where "t = max 0 (min 1 ((m - 6.0) / 5.5))"
  have t01: "0 \<le> t" "t \<le> 1" by (simp_all add: t_def)
  have clamp: "getMagmaColor Color ((m - 6.0) / 5.5) = getMagmaColor Color t"
    unfolding t_def by (rule getMagmaColor_clamp)
  have col: "color_of sn Color (JNum m) = getMagmaColor Color t"
    unfolding clamp [symmetric] by (simp add: color_of_def)
  have a: "\<forall>i<5. fst (colorStops Color ! i) \<le> t \<and> t \<le> fst (colorStops Color ! Suc i) \<longrightarrow>
          (case (snd (colorStops Color ! i), snd (colorStops Color ! Suc i),
                 (t - fst (colorStops Color ! i)) /
                 (fst (colorStops Color ! Suc i) - fst (colorStops Color ! i))) of
             ((r1, g1, b1), (r2, g2, b2), f) \<Rightarrow>
               color_of sn Color (JNum m) =
                 (r1 + (r2 - r1) * f, g1 + (g2 - g1) * f, b1 + (b2 - b1) * f))"
  proof (intro allI impI)
    fix i :: nat
    assume i: "i < 5"
      and b: "fst (colorStops Color ! i) \<le> t \<and> t \<le> fst (colorStops Color ! Suc i)"
    from b have lo: "fst (colorStops Color ! i) \<le> t"
      and hi: "t \<le> fst (colorStops Color ! Suc i)" by simp_all
    have "color_of sn Color (JNum m) =
        lerpColors (snd (colorStops Color ! i)) (snd (colorStops Color ! Suc i))
          ((t - fst (colorStops Color ! i)) /
           (fst (colorStops Color ! Suc i) - fst (colorStops Color ! i)))"
      unfolding col by (rule getMagma_bracket [OF t01 i lo hi])
    then show "case (snd (colorStops Color ! i), snd (colorStops Color ! Suc i),
                 (t - fst (colorStops Color ! i)) /
                 (fst (colorStops Color ! Suc i) - fst (colorStops Color ! i))) of
             ((r1, g1, b1), (r2, g2, b2), f) \<Rightarrow>
               color_of sn Color (JNum m) =
                 (r1 + (r2 - r1) * f, g1 + (g2 - g1) * f, b1 + (b2 - b1) * f)"
      by (simp add: lerpColors_def split: prod.splits)
  qed
  have b: "\<exists>i<5. fst (colorStops Color ! i) \<le> t \<and> t \<le> fst (colorStops Color ! Suc i)"
    using t01 by (rule bracket_exists)
  have p: "map fst (colorStops Color) = [0, 0.2, 0.4, 0.6, 0.8, 1]"
    "map snd (colorStops Color) =
       map Color [''#000004'', ''#3B0F70'', ''#8C2981'', ''#DE4968'', ''#FE9F6D'', ''#FCFDBF'']"
    by (simp_all add: colorStops_def)
  have e1: "color_of sn Color (JNum 6.0) = Color ''#000004''"
    by (simp add: color_of_def getMagmaColor_def colorStops_def Let_def lerp_0)
  have e2: "color_of sn Color (JNum 11.5) = Color ''#FCFDBF''"
    by (simp add: color_of_def getMagmaColor_def colorStops_def Let_def lerp_1)
  have e3: "color_of sn Color (JNum 3.25) = Color ''#000004''"
    by (simp add: color_of_def getMagmaColor_def colorStops_def Let_def lerp_0)
  have e4: "color_of sn Color (JNum 20) = Color ''#FCFDBF''"
    by (simp add: color_of_def getMagmaColor_def colorStops_def Let_def lerp_1)
  from a b p e1 e2 e3 e4 show ?thesis
    unfolding Let_def t_def by blast
qed

theorem color_of_interpolates_witness:
  "color_of no_numeral THREE_Color (JNum 6.55) =
     (SRGBToLinear 0 + (SRGBToLinear (59 / 255) - SRGBToLinear 0) * (1 / 2),
      SRGBToLinear 0 + (SRGBToLinear (15 / 255) - SRGBToLinear 0) * (1 / 2),
      SRGBToLinear (4 / 255) + (SRGBToLinear (112 / 255) - SRGBToLinear (4 / 255)) * (1 / 2))
   \<and> color_of no_numeral hex_color (JNum 6.55) = (59 / 510, 15 / 510, 116 / 510)
   \<and> color_of no_numeral THREE_Color (JNum 6) =
       (SRGBToLinear 0, SRGBToLinear 0, SRGBToLinear (4 / 255))
   \<and> color_of no_numeral THREE_Color (JNum 11.5) =
       (SRGBToLinear (252 / 255), SRGBToLinear (253 / 255), SRGBToLinear (191 / 255))"
proof -
  have h: "hex_color ''#000004'' = (0, 0, 4 / 255)"
    "hex_color ''#3B0F70'' = (59 / 255, 15 / 255, 112 / 255)"
    "hex_color ''#FCFDBF'' = (252 / 255, 253 / 255, 191 / 255)"
    by (simp_all add: hex_color_def hex_digit_def upt_rec)
  note inst = color_of_interpolates [where m = "6.55" and Color = THREE_Color and sn = no_numeral]
  note inst' = color_of_interpolates [where m = "6.55" and Color = hex_color and sn = no_numeral]
  have a: "color_of no_numeral THREE_Color (JNum 6.55) =
     (SRGBToLinear 0 + (SRGBToLinear (59 / 255) - SRGBToLinear 0) * (1 / 2),
      SRGBToLinear 0 + (SRGBToLinear (15 / 255) - SRGBToLinear 0) * (1 / 2),
      SRGBToLinear (4 / 255) + (SRGBToLinear (112 / 255) - SRGBToLinear (4 / 255)) * (1 / 2))"
    using inst [unfolded Let_def, THEN conjunct1, THEN conjunct1, rule_format, of 0]
    by (simp add: colorStops_def THREE_Color_def h)
  have a': "color_of no_numeral hex_color (JNum 6.55) = (59 / 510, 15 / 510, 116 / 510)"
    using inst' [unfolded Let_def, THEN conjunct1, THEN conjunct1, rule_format, of 0]
    by (simp add: colorStops_def h)
  from inst have e: "color_of no_numeral THREE_Color (JNum 6) = THREE_Color ''#000004''"
    "color_of no_numeral THREE_Color (JNum 11.5) = THREE_Color ''#FCFDBF''"
    by simp_all
  from a a' e show ?thesis
    by (simp add: THREE_Color_def h)
qed

section \<open>Facts about handleLocate\<close>

text \<open>
  C9. For all right ascensions and declinations in degrees and all distances,
  \<open>handleLocate\<close> yields \<open>(d cos(dec) cos(ra), d cos(dec) sin(ra), d sin(dec))\<close> with both
  angles converted to radians; no range is checked. At distance 1 the inputs
  \<open>(0, 0)\<close>, \<open>(90, 0)\<close> and \<open>(0, 90)\<close> give the three unit vectors.
\<close>

theorem handleLocate_spherical:
  "handleLocate ra dec d =
     (d * cos (radians dec) * cos (radians ra),
      d * cos (radians dec) * sin (radians ra),
      d * sin (radians dec))
   \<and> handleLocate 0 0 1 = (1, 0, 0)
   \<and> handleLocate 90 0 1 = (0, 1, 0)
   \<and> handleLocate 0 90 1 = (0, 0, 1)"
proof -
  have "radians 90 = pi / 2" by (simp add: radians_def)
  then show ?thesis
    by (simp add: handleLocate_def Let_def radians_def)
qed

end
